theory Spec2Isabelle
  imports Complex_Main "HOL-Library.Multiset" "HOL-Library.Sublist"
begin

section \<open>Canonical message model\<close>

text \<open>
  A message is the dictionary \<^verbatim>\<open>{'text': ..., 'timestamp': ..., 'sender': ...}\<close> that every
  parser builds. The parsers copy whatever value the export holds into \<^verbatim>\<open>text\<close> and
  \<^verbatim>\<open>sender\<close>, so the record is polymorphic in the type of these two fields: JSON values
  for parser output, strings for the sequences the analyzer scores.

  A timestamp is a naive \<^verbatim>\<open>datetime\<close>, modelled as the integer number of microseconds
  since the epoch; a \<^verbatim>\<open>timedelta\<close> is a difference of two of them.

  Strings are UTF-8 byte strings; Python's \<^verbatim>\<open>len\<close> counts code points, which are the bytes
  that are not continuation bytes. Python floats are modelled as real numbers.

  \<open>lower\<close> lowers the ASCII letters and leaves every other byte as it is. The enthusiasm
  markers are tested on it: a marker is ASCII, and the only characters outside ASCII whose
  \<^verbatim>\<open>str.lower\<close> holds an ASCII letter are U+212A (giving \<^verbatim>\<open>k\<close>) and U+0130 (giving \<^verbatim>\<open>i\<close> and
  a combining dot), while no marker holds a \<^verbatim>\<open>k\<close> or ends in \<^verbatim>\<open>i\<close>. For the platform hint,
  where \<^verbatim>\<open>k\<close> matters, \<^verbatim>\<open>str.lower\<close> is a function of the world below.

  The key \<^verbatim>\<open>text\<close> is the field \<open>msg_text\<close>, and the key \<^verbatim>\<open>interpretation\<close> of the result is
  the field \<open>interpretation_str\<close>: both words are reserved in theory files.
\<close>

record 's message =
  msg_text :: 's
  timestamp :: int
  sender :: 's

definition total_seconds :: "int \<Rightarrow> real" where
  "total_seconds d = real_of_int d / 1000000"

definition py_len :: "string \<Rightarrow> nat" where
  "py_len s = length (filter (\<lambda>c. (of_char c :: nat) div 64 \<noteq> 2) s)"

definition lower_char :: "char \<Rightarrow> char" where
  "lower_char c =
     (let n = (of_char c :: nat) in if 65 \<le> n \<and> n \<le> 90 then char_of (n + 32) else c)"

definition lower :: "string \<Rightarrow> string" where
  "lower s = map lower_char s"

definition np_mean :: "real list \<Rightarrow> real" where
  "np_mean xs = sum_list xs / real (length xs)"

section \<open>The data frame and the signal computations\<close>

text \<open>
  The data frame of \<^verbatim>\<open>MessageAnalyzer\<close>: the rows in order, and the column
  \<^verbatim>\<open>time_gap\<close>, which is absent (\<open>None\<close>) until \<^verbatim>\<open>analyze_conversation_initiation\<close>
  assigns it. A cell of that column is \<open>None\<close> where pandas holds NaN.

  Every signal computation receives the caller's frame and may assign to it, so each one
  returns its score together with the frame as it is after the call.
\<close>

record 's dataframe =
  rows :: "'s message list"
  time_gap :: "real option list option"

definition their_messages :: "string dataframe \<Rightarrow> string \<Rightarrow> string message list" where
  "their_messages df target = filter (\<lambda>m. sender m = target) (rows df)"

definition your_messages :: "string dataframe \<Rightarrow> string \<Rightarrow> string message list" where
  "your_messages df target = filter (\<lambda>m. sender m \<noteq> target) (rows df)"

subsection \<open>Response time\<close>

fun response_times :: "string message list \<Rightarrow> string \<Rightarrow> real list" where
  "response_times (a # b # ms) target =
     (if sender a \<noteq> target \<and> sender b = target
      then total_seconds (timestamp b - timestamp a) / 60 # response_times (b # ms) target
      else response_times (b # ms) target)"
| "response_times ms target = []"

definition response_time_score :: "real \<Rightarrow> real" where
  "response_time_score avg_response =
     (let score =
        (if avg_response < 5 then 100
         else if avg_response < 30 then 100 - (avg_response - 5) * (8 / 10)
         else if avg_response < 60 then 80 - (avg_response - 30) * (67 / 100)
         else if avg_response < 180 then 60 - (avg_response - 60) * (17 / 100)
         else max 20 (40 - (avg_response - 180) / 60))
      in min 100 (max 0 score))"

definition analyze_response_time :: "string dataframe \<Rightarrow> string \<Rightarrow> real \<times> string dataframe" where
  "analyze_response_time df target =
     (let rts = response_times (rows df) target
      in if rts = [] then (50, df) else (response_time_score (np_mean rts), df))"

subsection \<open>Message length\<close>

definition message_length_score :: "real \<Rightarrow> real" where
  "message_length_score ratio =
     (let score =
        (if ratio \<ge> 8 / 10 then 100
         else if ratio \<ge> 5 / 10 then 70 + (ratio - 5 / 10) * 100
         else max 30 (ratio * 140))
      in min 100 score)"

definition analyze_message_length :: "string dataframe \<Rightarrow> string \<Rightarrow> real \<times> string dataframe" where
  "analyze_message_length df target =
     (let their = map msg_text (their_messages df target);
          your = map msg_text (your_messages df target)
      in if length their = 0 then (0, df)
         else
           let their_avg_length = np_mean (map (\<lambda>s. real (py_len s)) their);
               your_avg_length =
                 (if length your > 0 then np_mean (map (\<lambda>s. real (py_len s)) your) else 50);
               ratio = their_avg_length / max your_avg_length 1
           in (message_length_score ratio, df))"

subsection \<open>Emoji usage\<close>

text \<open>
  \<^verbatim>\<open>emoji.emoji_list\<close> belongs to a library; it is a parameter, returning the emojis found in
  a text in order. The positive emojis are the eighteen of the source, as UTF-8.
\<close>

definition positive_emojis :: "string list" where
  "positive_emojis = map (map char_of)
     [[226, 157, 164, 239, 184, 143 :: nat], [240, 159, 146, 149], [240, 159, 146, 150],
      [240, 159, 152, 138], [240, 159, 152, 141], [240, 159, 165, 176], [240, 159, 152, 152],
      [240, 159, 146, 151], [240, 159, 146, 147], [240, 159, 146, 157], [240, 159, 152, 132],
      [240, 159, 152, 129], [240, 159, 153, 130], [240, 159, 152, 137], [240, 159, 165, 186],
      [226, 156, 168], [240, 159, 146, 171], [226, 173, 144]]"

definition emoji_score :: "real \<Rightarrow> real \<Rightarrow> real" where
  "emoji_score avg_emojis positive_ratio =
     (let base_score =
        (if avg_emojis \<ge> 5 / 10 then 90
         else if avg_emojis \<ge> 3 / 10 then 70
         else if avg_emojis \<ge> 1 / 10 then 50
         else 30);
          bonus = positive_ratio * 20
      in min 100 (base_score + bonus))"

definition analyze_emoji_usage ::
  "(string \<Rightarrow> string list) \<Rightarrow> string dataframe \<Rightarrow> string \<Rightarrow> real \<times> string dataframe" where
  "analyze_emoji_usage emoji_list df target =
     (let their = map msg_text (their_messages df target)
      in if length their = 0 then (0, df)
         else
           let emoji_count = sum_list (map (\<lambda>msg. length (emoji_list msg)) their);
               positive_emoji_count =
                 sum_list (map (\<lambda>msg. length (filter (\<lambda>e. e \<in> set positive_emojis)
                                                    (emoji_list msg))) their);
               avg_emojis = real emoji_count / real (length their);
               positive_ratio = real positive_emoji_count / real (max emoji_count 1)
           in (emoji_score avg_emojis positive_ratio, df))"

subsection \<open>Question asking\<close>

definition question_score :: "real \<Rightarrow> real" where
  "question_score question_ratio =
     (let score =
        (if 2 / 10 \<le> question_ratio \<and> question_ratio \<le> 4 / 10 then 100
         else if 1 / 10 \<le> question_ratio \<and> question_ratio < 2 / 10
           then 50 + (question_ratio - 1 / 10) * 500
         else if 4 / 10 < question_ratio \<and> question_ratio \<le> 6 / 10
           then 100 - (question_ratio - 4 / 10) * 100
         else max 20 (60 * question_ratio))
      in min 100 score)"

definition analyze_question_asking :: "string dataframe \<Rightarrow> string \<Rightarrow> real \<times> string dataframe" where
  "analyze_question_asking df target =
     (let their = map msg_text (their_messages df target)
      in if length their = 0 then (0, df)
         else
           let question_count = length (filter (\<lambda>msg. CHR ''?'' \<in> set msg) their);
               question_ratio = real question_count / real (length their)
           in (question_score question_ratio, df))"

subsection \<open>Conversation initiation\<close>

text \<open>
  \<^verbatim>\<open>Series.diff\<close>: the first cell is missing, every other one is the difference to the
  row before.
\<close>

definition diff :: "int list \<Rightarrow> int option list" where
  "diff ts = (if ts = [] then [] else None # map (\<lambda>(a, b). Some (b - a)) (zip ts (tl ts)))"

definition gap_exceeds :: "real option \<Rightarrow> real \<Rightarrow> bool" where
  "gap_exceeds g h = (case g of None \<Rightarrow> False | Some x \<Rightarrow> x > h)"

definition initiation_score :: "real \<Rightarrow> real" where
  "initiation_score initiation_ratio =
     (let score =
        (if 4 / 10 \<le> initiation_ratio \<and> initiation_ratio \<le> 6 / 10 then 100
         else if 3 / 10 \<le> initiation_ratio \<and> initiation_ratio < 4 / 10
           then 70 + (initiation_ratio - 3 / 10) * 300
         else if 6 / 10 < initiation_ratio \<and> initiation_ratio \<le> 7 / 10
           then 100 - (initiation_ratio - 6 / 10) * 100
         else max 30 (initiation_ratio * 150))
      in min 100 score)"

definition analyze_conversation_initiation :: "string dataframe \<Rightarrow> string \<Rightarrow> real \<times> string dataframe" where
  "analyze_conversation_initiation df target =
     (if length (rows df) < 2 then (50, df)
      else
        let gaps = map (map_option (\<lambda>d. total_seconds d / 3600)) (diff (map timestamp (rows df)));
            df' = df\<lparr>time_gap := Some gaps\<rparr>;
            conversation_starts =
              map fst (filter (\<lambda>(m, g). gap_exceeds g 4) (zip (rows df') gaps))
        in if length conversation_starts = 0 then (50, df')
           else
             let their_initiations =
                   length (filter (\<lambda>m. sender m = target) conversation_starts);
                 initiation_ratio = real their_initiations / real (length conversation_starts)
             in (initiation_score initiation_ratio, df'))"

subsection \<open>Enthusiasm\<close>

text \<open>
  The sentiment polarity of TextBlob is a parameter; the library documents its range as
  \<open>[-1, 1]\<close>.
\<close>

definition enthusiasm_markers :: "string list" where
  "enthusiasm_markers =
     [''!'', ''haha'', ''lol'', ''omg'', ''wow'', ''love'', ''amazing'', ''awesome'']"

definition analyze_enthusiasm ::
  "(string \<Rightarrow> real) \<Rightarrow> string dataframe \<Rightarrow> string \<Rightarrow> real \<times> string dataframe" where
  "analyze_enthusiasm polarity df target =
     (let their = map msg_text (their_messages df target)
      in if length their = 0 then (0, df)
         else
           let sentiments = map polarity their;
               avg_sentiment = np_mean sentiments;
               enthusiasm_count =
                 sum_list (map (\<lambda>msg. length (filter (\<lambda>marker. sublist marker (lower msg))
                                                    enthusiasm_markers)) their);
               enthusiasm_ratio = real enthusiasm_count / real (length their);
               sentiment_score = (avg_sentiment + 1) / 2 * 60;
               enthusiasm_score = min 40 (enthusiasm_ratio * 100)
           in (sentiment_score + enthusiasm_score, df))"

subsection \<open>Consistency\<close>

text \<open>
  \<^verbatim>\<open>Series.std\<close> is the sample standard deviation (one degree of freedom removed). The
  calendar day of a timestamp is its number of whole days since the epoch.
\<close>

definition pd_std :: "real list \<Rightarrow> real" where
  "pd_std xs =
     sqrt (sum_list (map (\<lambda>x. (x - np_mean xs)\<^sup>2) xs) / (real (length xs) - 1))"

definition date_of :: "int \<Rightarrow> int" where
  "date_of ts = ts div 86400000000"

definition group_sizes :: "int list \<Rightarrow> real list" where
  "group_sizes dates = map (\<lambda>d. real (count_list dates d)) (remdups dates)"

definition consistency_score :: "real \<Rightarrow> real" where
  "consistency_score cv =
     (if cv < 5 / 10 then 100
      else if cv < 1 then 100 - (cv - 5 / 10) * 60
      else max 30 (70 - cv * 20))"

definition analyze_consistency :: "string dataframe \<Rightarrow> string \<Rightarrow> real \<times> string dataframe" where
  "analyze_consistency df target =
     (let their_copy = their_messages df target
      in if length their_copy < 5 then (50, df)
         else
           let dates = map (\<lambda>m. date_of (timestamp m)) their_copy;
               daily_counts = group_sizes dates
           in if length daily_counts < 2 then (70, df)
              else
                let cv = pd_std daily_counts / np_mean daily_counts
                in (consistency_score cv, df))"

subsection \<open>Reciprocity\<close>

definition reciprocity_score :: "real \<Rightarrow> real" where
  "reciprocity_score ratio =
     (if 8 / 10 \<le> ratio \<and> ratio \<le> 12 / 10 then 100
      else if 5 / 10 \<le> ratio \<and> ratio < 8 / 10 then 60 + (ratio - 5 / 10) * 133
      else if 12 / 10 < ratio \<and> ratio \<le> 15 / 10 then 100 - (ratio - 12 / 10) * 50
      else max 20 (min 100 (ratio * 70)))"

definition analyze_reciprocity :: "string dataframe \<Rightarrow> string \<Rightarrow> real \<times> string dataframe" where
  "analyze_reciprocity df target =
     (if length (rows df) < 2 then (50, df)
      else
        let their_count = length (their_messages df target);
            your_count = length (rows df) - their_count
        in if your_count = 0 then (if their_count > 0 then 100 else 0, df)
           else
             let ratio = real their_count / real your_count
             in (reciprocity_score ratio, df))"

subsection \<open>Aggregation\<close>

text \<open>
  The analyzer's \<^verbatim>\<open>engagement_signals\<close> dictionary, one field per key. The eight
  assignments of \<^verbatim>\<open>calculate_overall_interest\<close> run in the order of the source, each on the
  frame the one before left.
\<close>

record signals =
  response_time :: real
  message_length :: real
  emoji_usage :: real
  question_asking :: real
  conversation_initiation :: real
  enthusiasm :: real
  consistency :: real
  reciprocity :: real

definition compute_signals ::
  "(string \<Rightarrow> string list) \<Rightarrow> (string \<Rightarrow> real) \<Rightarrow> string dataframe \<Rightarrow> string
     \<Rightarrow> signals \<times> string dataframe" where
  "compute_signals emoji_list polarity df target =
     (let (s1, df1) = analyze_response_time df target;
          (s2, df2) = analyze_message_length df1 target;
          (s3, df3) = analyze_emoji_usage emoji_list df2 target;
          (s4, df4) = analyze_question_asking df3 target;
          (s5, df5) = analyze_conversation_initiation df4 target;
          (s6, df6) = analyze_enthusiasm polarity df5 target;
          (s7, df7) = analyze_consistency df6 target;
          (s8, df8) = analyze_reciprocity df7 target
      in (\<lparr>response_time = s1, message_length = s2, emoji_usage = s3, question_asking = s4,
           conversation_initiation = s5, enthusiasm = s6, consistency = s7,
           reciprocity = s8\<rparr>, df8))"

definition overall_score :: "signals \<Rightarrow> real" where
  "overall_score s =
     response_time s * (18 / 100) + message_length s * (12 / 100)
     + emoji_usage s * (9 / 100) + question_asking s * (10 / 100)
     + conversation_initiation s * (15 / 100) + enthusiasm s * (15 / 100)
     + consistency s * (8 / 100) + reciprocity s * (13 / 100)"

definition interpretation_of :: "real \<Rightarrow> string" where
  "interpretation_of score =
     (if score \<ge> 80 then ''Strong interest - Very positive signs!''
      else if score \<ge> 65 then ''Good interest - Looking promising''
      else if score \<ge> 50 then ''Moderate interest - Could go either way''
      else if score \<ge> 35 then ''Low interest - Not looking great''
      else ''Minimal interest - Might want to move on'')"

text \<open>Python's \<^verbatim>\<open>round(x, 1)\<close>: to the nearest tenth, a tie going to the even one.\<close>

definition round_half_even :: "real \<Rightarrow> int" where
  "round_half_even x =
     (let f = \<lfloor>x\<rfloor>; d = x - of_int f
      in if d < 1 / 2 then f else if d > 1 / 2 then f + 1 else if even f then f else f + 1)"

definition round1 :: "real \<Rightarrow> real" where
  "round1 x = of_int (round_half_even (x * 10)) / 10"

record result =
  overall_percentage :: real
  interpretation_str :: string
  signal_breakdown :: signals
  message_count :: nat
  their_message_count :: nat
  your_message_count :: nat

definition round_signals :: "signals \<Rightarrow> signals" where
  "round_signals s =
     \<lparr>response_time = round1 (response_time s), message_length = round1 (message_length s),
      emoji_usage = round1 (emoji_usage s), question_asking = round1 (question_asking s),
      conversation_initiation = round1 (conversation_initiation s),
      enthusiasm = round1 (enthusiasm s), consistency = round1 (consistency s),
      reciprocity = round1 (reciprocity s)\<rparr>"

definition calculate_overall_interest ::
  "(string \<Rightarrow> string list) \<Rightarrow> (string \<Rightarrow> real) \<Rightarrow> string dataframe \<Rightarrow> string
     \<Rightarrow> result \<times> string dataframe" where
  "calculate_overall_interest emoji_list polarity df target =
     (let (engagement_signals, df') = compute_signals emoji_list polarity df target;
          score = overall_score engagement_signals
      in (\<lparr>overall_percentage = round1 score,
           interpretation_str = interpretation_of score,
           signal_breakdown = round_signals engagement_signals,
           message_count = length (rows df'),
           their_message_count = length (their_messages df' target),
           your_message_count = length (rows df') - length (their_messages df' target)\<rparr>, df'))"

section \<open>Loading\<close>

datatype pyerror =
  OSError | JSONDecodeError | KeyError | TypeError | AttributeError | ValueError | OverflowError



text \<open>Rows with the same key are in the order they had before.\<close>

definition keeps_tie_order :: "('a \<Rightarrow> int) \<Rightarrow> 'a list \<Rightarrow> 'a list \<Rightarrow> bool" where
  "keeps_tie_order key xs ys \<longleftrightarrow>
     (\<forall>k. filter (\<lambda>x. key x = k) ys = filter (\<lambda>x. key x = k) xs)"

text \<open>
  Two sorting functions that both meet \<open>sorts_by_key\<close>: insertion sort, which is stable, and
  one that leaves equal keys in reverse order.
\<close>

definition stable_sort :: "('a \<Rightarrow> int) \<Rightarrow> 'a list \<Rightarrow> 'a list" where
  "stable_sort key xs = sort_key key xs"


section \<open>Parsers\<close>

subsection \<open>JSON values and the operations Python applies to them\<close>

text \<open>
  The value \<^verbatim>\<open>json.load\<close> returns. An object is the list of the items of the resulting
  dictionary, every key once. The two infinities and NaN, which the reader also accepts as
  numbers, are left out.
\<close>

datatype json =
  JNull | JBool bool | JInt int | JFloat real | JStr string
  | JArr "json list" | JObj "(string \<times> json) list"

definition bind :: "pyerror + 'a \<Rightarrow> ('a \<Rightarrow> pyerror + 'b) \<Rightarrow> pyerror + 'b" where
  "bind m f = (case m of Inl e \<Rightarrow> Inl e | Inr v \<Rightarrow> f v)"

text \<open>The code points of a UTF-8 string, each with its continuation bytes.\<close>

function code_points :: "string \<Rightarrow> string list" where
  "code_points [] = []"
| "code_points (c # cs) =
     (c # takeWhile (\<lambda>d. (of_char d :: nat) div 64 = 2) cs)
       # code_points (dropWhile (\<lambda>d. (of_char d :: nat) div 64 = 2) cs)"
  by pat_completeness auto
termination
  by (relation "measure length") (auto simp: less_Suc_eq_le length_dropWhile_le)

text \<open>\<^verbatim>\<open>key in x\<close>, \<^verbatim>\<open>x[key]\<close>, \<^verbatim>\<open>x.get(key, default)\<close> and \<^verbatim>\<open>for e in x\<close>.\<close>

fun py_in :: "string \<Rightarrow> json \<Rightarrow> pyerror + bool" where
  "py_in key (JObj kvs) = Inr (key \<in> fst ` set kvs)"
| "py_in key (JArr xs) = Inr (JStr key \<in> set xs)"
| "py_in key (JStr s) = Inr (sublist key s)"
| "py_in key _ = Inl TypeError"

fun py_getitem :: "json \<Rightarrow> string \<Rightarrow> pyerror + json" where
  "py_getitem (JObj kvs) key = (case map_of kvs key of None \<Rightarrow> Inl KeyError | Some v \<Rightarrow> Inr v)"
| "py_getitem _ key = Inl TypeError"

fun py_get :: "json \<Rightarrow> string \<Rightarrow> json \<Rightarrow> pyerror + json" where
  "py_get (JObj kvs) key dflt = (case map_of kvs key of None \<Rightarrow> Inr dflt | Some v \<Rightarrow> Inr v)"
| "py_get _ key dflt = Inl AttributeError"

fun py_iter :: "json \<Rightarrow> pyerror + json list" where
  "py_iter (JArr xs) = Inr xs"
| "py_iter (JObj kvs) = Inr (map (\<lambda>kv. JStr (fst kv)) kvs)"
| "py_iter (JStr s) = Inr (map JStr (code_points s))"
| "py_iter _ = Inl TypeError"

text \<open>\<^verbatim>\<open>x / 1000\<close>: a number (a boolean is one) is divided, anything else is a \<^verbatim>\<open>TypeError\<close>.\<close>

fun py_number :: "json \<Rightarrow> real option" where
  "py_number (JInt n) = Some (of_int n)"
| "py_number (JFloat x) = Some x"
| "py_number (JBool b) = Some (if b then 1 else 0)"
| "py_number _ = None"

definition py_truediv :: "json \<Rightarrow> real \<Rightarrow> pyerror + real" where
  "py_truediv x d = (case py_number x of None \<Rightarrow> Inl TypeError | Some v \<Rightarrow> Inr (v / d))"

subsection \<open>The world outside the parsers\<close>

text \<open>
  The files, the clock and the library functions the parsers call:
  \<^item> \<open>files\<close>: the text of every file that can be opened and decoded, as text mode hands
    it over, every line ending in a line feed;
  \<^item> \<open>json_loads\<close>: the JSON parser, \<open>None\<close> where it raises;
  \<^item> \<open>csv_rows\<close>: the dictionaries \<^verbatim>\<open>csv.DictReader\<close> yields, a value being a string or
    \<^verbatim>\<open>None\<close>;
  \<^item> \<open>strptime\<close>: \<^verbatim>\<open>datetime.strptime(s, fmt)\<close>, \<open>None\<close> where it raises \<^verbatim>\<open>ValueError\<close>;
  \<^item> \<open>fromtimestamp\<close>: \<^verbatim>\<open>datetime.fromtimestamp\<close>, which raises out of its range;
  \<^item> \<open>now\<close>: the reading of \<^verbatim>\<open>datetime.now()\<close> while the entry of that index is parsed;
  \<^item> \<open>re_match\<close>: the groups of the WhatsApp line pattern, \<open>None\<close> for no match;
  \<^item> \<open>repr\<close>: \<^verbatim>\<open>str\<close> of a list or a dictionary;
  \<^item> \<open>str_lower\<close>: \<^verbatim>\<open>str.lower\<close>, over all of Unicode.
\<close>

record world =
  files :: "string \<Rightarrow> string option"
  json_loads :: "string \<Rightarrow> json option"
  csv_rows :: "string \<Rightarrow> (string \<times> json) list list"
  strptime :: "string \<Rightarrow> string \<Rightarrow> int option"
  fromtimestamp :: "real \<Rightarrow> pyerror + int"
  now :: "nat \<Rightarrow> int"
  re_match :: "string \<Rightarrow> (string \<times> string \<times> string \<times> string) option"
  repr :: "json \<Rightarrow> string"
  str_lower :: "string \<Rightarrow> string"

definition open_file :: "world \<Rightarrow> string \<Rightarrow> pyerror + string" where
  "open_file w file_path = (case files w file_path of None \<Rightarrow> Inl OSError | Some txt \<Rightarrow> Inr txt)"

definition json_load :: "world \<Rightarrow> string \<Rightarrow> pyerror + json" where
  "json_load w file_path =
     bind (open_file w file_path)
       (\<lambda>txt. case json_loads w txt of None \<Rightarrow> Inl JSONDecodeError | Some data \<Rightarrow> Inr data)"

text \<open>
  The loop \<^verbatim>\<open>for msg in ...: messages.append(...)\<close>: entries in order, each one appending a
  message or nothing; the first error ends the loop. The index is the position of the entry.
\<close>

fun collect ::
  "(nat \<Rightarrow> 'a \<Rightarrow> pyerror + 'b option) \<Rightarrow> nat \<Rightarrow> 'a list \<Rightarrow> pyerror + 'b list" where
  "collect f i [] = Inr []"
| "collect f i (x # xs) =
     bind (f i x) (\<lambda>r. bind (collect f (Suc i) xs)
       (\<lambda>rs. Inr (case r of None \<Rightarrow> rs | Some m \<Rightarrow> m # rs)))"

subsection \<open>Facebook and Instagram\<close>

definition facebook_entry :: "world \<Rightarrow> nat \<Rightarrow> json \<Rightarrow> pyerror + json message option" where
  "facebook_entry w i msg =
     bind (py_in ''content'' msg) (\<lambda>has_content.
       if has_content then
         bind (py_getitem msg ''content'') (\<lambda>content.
         bind (py_getitem msg ''timestamp_ms'') (\<lambda>timestamp_ms.
         bind (py_truediv timestamp_ms 1000) (\<lambda>seconds.
         bind (fromtimestamp w seconds) (\<lambda>ts.
         bind (py_getitem msg ''sender_name'') (\<lambda>sender_name.
           Inr (Some \<lparr>msg_text = content, timestamp = ts, sender = sender_name\<rparr>))))))
       else Inr None)"

definition facebook_parse :: "world \<Rightarrow> string \<Rightarrow> pyerror + json message list" where
  "facebook_parse w file_path =
     bind (json_load w file_path) (\<lambda>data.
     bind (py_in ''messages'' data) (\<lambda>has_messages.
       if has_messages then
         bind (py_getitem data ''messages'') (\<lambda>msgs.
         bind (py_iter msgs) (\<lambda>entries. collect (facebook_entry w) 0 entries))
       else Inr []))"

definition instagram_parse :: "world \<Rightarrow> string \<Rightarrow> pyerror + json message list" where
  "instagram_parse w file_path = facebook_parse w file_path"

subsection \<open>Loosely typed timestamps\<close>

text \<open>
  The loop over the formats returns at the first one that parses. A value that is not a
  string makes \<^verbatim>\<open>strptime\<close> raise \<^verbatim>\<open>TypeError\<close>, which the loop catches like a
  \<^verbatim>\<open>ValueError\<close>.
\<close>

fun try_formats :: "world \<Rightarrow> json \<Rightarrow> string list \<Rightarrow> int option" where
  "try_formats w ts [] = None"
| "try_formats w ts (fmt # fmts) =
     (case (case ts of JStr s \<Rightarrow> strptime w s fmt | _ \<Rightarrow> None) of
        Some t \<Rightarrow> Some t
      | None \<Rightarrow> try_formats w ts fmts)"

definition imessage_formats :: "string list" where
  "imessage_formats =
     [''%Y-%m-%d %H:%M:%S'', ''%Y-%m-%dT%H:%M:%S'', ''%Y-%m-%d %H:%M:%S.%f'',
      ''%m/%d/%Y %H:%M:%S'', ''%d/%m/%Y %H:%M:%S'']"

definition imessage_parse_timestamp :: "world \<Rightarrow> nat \<Rightarrow> json \<Rightarrow> int" where
  "imessage_parse_timestamp w i ts_str =
     (case try_formats w ts_str imessage_formats of Some t \<Rightarrow> t | None \<Rightarrow> now w i)"

definition generic_formats :: "string list" where
  "generic_formats =
     [''%Y-%m-%d %H:%M:%S'', ''%Y-%m-%dT%H:%M:%S'', ''%Y-%m-%d %H:%M:%S.%f'',
      ''%Y-%m-%dT%H:%M:%S.%fZ'']"

definition py_str :: "world \<Rightarrow> json \<Rightarrow> string" where
  "py_str w v = (case v of JStr s \<Rightarrow> s | JNull \<Rightarrow> ''None'' | _ \<Rightarrow> repr w v)"

definition generic_parse_timestamp :: "world \<Rightarrow> nat \<Rightarrow> json \<Rightarrow> pyerror + int" where
  "generic_parse_timestamp w i ts =
     (case py_number ts of
        Some x \<Rightarrow> fromtimestamp w x
      | None \<Rightarrow>
          Inr (case try_formats w (JStr (py_str w ts)) generic_formats of
                 Some t \<Rightarrow> t
               | None \<Rightarrow> now w i))"

subsection \<open>iMessage\<close>

definition endswith :: "string \<Rightarrow> string \<Rightarrow> bool" where
  "endswith s suf = suffix suf s"

definition imessage_json_entry :: "world \<Rightarrow> nat \<Rightarrow> json \<Rightarrow> pyerror + json message option" where
  "imessage_json_entry w i msg =
     bind (py_get msg ''text'' (JStr [])) (\<lambda>text_value.
     bind (py_get msg ''timestamp'' JNull) (\<lambda>ts.
     bind (py_get msg ''from'' (JStr ''Unknown'')) (\<lambda>from_value.
     bind (py_get msg ''sender'' from_value) (\<lambda>sender_value.
       Inr (Some \<lparr>msg_text = text_value, timestamp = imessage_parse_timestamp w i ts,
                  sender = sender_value\<rparr>)))))"

definition imessage_csv_row ::
  "world \<Rightarrow> nat \<Rightarrow> (string \<times> json) list \<Rightarrow> pyerror + json message option" where
  "imessage_csv_row w i row =
     bind (py_get (JObj row) ''message'' (JStr [])) (\<lambda>message_value.
     bind (py_get (JObj row) ''text'' message_value) (\<lambda>text_value.
     bind (py_get (JObj row) ''date'' JNull) (\<lambda>date_value.
     bind (py_get (JObj row) ''timestamp'' date_value) (\<lambda>ts.
     bind (py_get (JObj row) ''from'' (JStr ''Unknown'')) (\<lambda>from_value.
     bind (py_get (JObj row) ''sender'' from_value) (\<lambda>sender_value.
       Inr (Some \<lparr>msg_text = text_value, timestamp = imessage_parse_timestamp w i ts,
                  sender = sender_value\<rparr>)))))))"

definition imessage_parse :: "world \<Rightarrow> string \<Rightarrow> pyerror + json message list" where
  "imessage_parse w file_path =
     (if endswith file_path ''.json'' then
        bind (json_load w file_path) (\<lambda>data.
        bind (py_iter data) (\<lambda>entries. collect (imessage_json_entry w) 0 entries))
      else if endswith file_path ''.csv'' then
        bind (open_file w file_path) (\<lambda>txt. collect (imessage_csv_row w) 0 (csv_rows w txt))
      else Inr [])"

subsection \<open>WhatsApp\<close>

text \<open>
  The lines of a file, each with its line feed, and the white space \<^verbatim>\<open>str.strip\<close> removes
  among the ASCII characters.
\<close>

fun py_lines :: "string \<Rightarrow> string \<Rightarrow> string list" where
  "py_lines cur [] = (if cur = [] then [] else [cur])"
| "py_lines cur (c # cs) =
     (if c = CHR 0x0A then (cur @ [c]) # py_lines [] cs else py_lines (cur @ [c]) cs)"

definition is_space :: "char \<Rightarrow> bool" where
  "is_space c = ((of_char c :: nat) \<in> {9, 10, 11, 12, 13, 28, 29, 30, 31, 32})"

definition strip :: "string \<Rightarrow> string" where
  "strip s = rev (dropWhile is_space (rev (dropWhile is_space s)))"

definition split_count :: "string \<Rightarrow> char \<Rightarrow> nat" where
  "split_count s c = Suc (length (filter (\<lambda>d. d = c) s))"

definition whatsapp_line :: "world \<Rightarrow> nat \<Rightarrow> string \<Rightarrow> pyerror + json message option" where
  "whatsapp_line w i line =
     (case re_match w line of
        None \<Rightarrow> Inr None
      | Some (date_str, time_str, sender_str, text_str) \<Rightarrow>
          let stamp = date_str @ '' '' @ time_str;
              day_first =
                (if split_count time_str CHR '':'' = 2
                 then strptime w stamp ''%d/%m/%Y %H:%M''
                 else strptime w stamp ''%d/%m/%Y %H:%M:%S'');
              parsed =
                (case day_first of
                   Some t \<Rightarrow> Some t
                 | None \<Rightarrow> strptime w stamp ''%m/%d/%Y %H:%M'')
          in Inr (map_option
                   (\<lambda>t. \<lparr>msg_text = JStr (strip text_str), timestamp = t,
                         sender = JStr (strip sender_str)\<rparr>) parsed))"

definition whatsapp_parse :: "world \<Rightarrow> string \<Rightarrow> pyerror + json message list" where
  "whatsapp_parse w file_path =
     bind (open_file w file_path) (\<lambda>txt. collect (whatsapp_line w) 0 (py_lines [] txt))"

subsection \<open>Generic JSON\<close>

definition generic_entry :: "world \<Rightarrow> nat \<Rightarrow> json \<Rightarrow> pyerror + json message option" where
  "generic_entry w i msg =
     bind (py_get msg ''content'' (JStr [])) (\<lambda>content_value.
     bind (py_get msg ''message'' content_value) (\<lambda>message_value.
     bind (py_get msg ''text'' message_value) (\<lambda>text_value.
     bind (py_get msg ''time'' JNull) (\<lambda>time_value.
     bind (py_get msg ''date'' time_value) (\<lambda>date_value.
     bind (py_get msg ''timestamp'' date_value) (\<lambda>ts.
     bind (generic_parse_timestamp w i ts) (\<lambda>parsed.
     bind (py_get msg ''author'' (JStr ''Unknown'')) (\<lambda>author_value.
     bind (py_get msg ''from'' author_value) (\<lambda>from_value.
     bind (py_get msg ''sender'' from_value) (\<lambda>sender_value.
       Inr (Some \<lparr>msg_text = text_value, timestamp = parsed,
                  sender = sender_value\<rparr>)))))))))))"

definition generic_parse :: "world \<Rightarrow> string \<Rightarrow> pyerror + json message list" where
  "generic_parse w file_path =
     bind (json_load w file_path) (\<lambda>data.
     bind (py_iter data) (\<lambda>entries. collect (generic_entry w) 0 entries))"

subsection \<open>Parser selection\<close>

datatype parser =
  FacebookMessengerParser | InstagramMessengerParser | iMessageParser | WhatsAppParser
  | GenericJSONParser

definition parse :: "world \<Rightarrow> parser \<Rightarrow> string \<Rightarrow> pyerror + json message list" where
  "parse w p file_path =
     (case p of
        FacebookMessengerParser \<Rightarrow> facebook_parse w file_path
      | InstagramMessengerParser \<Rightarrow> instagram_parse w file_path
      | iMessageParser \<Rightarrow> imessage_parse w file_path
      | WhatsAppParser \<Rightarrow> whatsapp_parse w file_path
      | GenericJSONParser \<Rightarrow> generic_parse w file_path)"

text \<open>The chain of tests on the lowered hint; \<open>None\<close> when no branch returns.\<close>

definition platform_parser :: "world \<Rightarrow> string \<Rightarrow> parser option" where
  "platform_parser w hint =
     (let platform = str_lower w hint
      in if sublist ''facebook'' platform \<or> sublist ''messenger'' platform
           then Some FacebookMessengerParser
         else if sublist ''instagram'' platform \<or> sublist ''ig'' platform
           then Some InstagramMessengerParser
         else if sublist ''imessage'' platform \<or> sublist ''apple'' platform
           then Some iMessageParser
         else if sublist ''whatsapp'' platform then Some WhatsAppParser
         else None)"

text \<open>Detection from the file: any exception while peeking into a JSON file is swallowed.\<close>

definition detect_parser :: "world \<Rightarrow> string \<Rightarrow> parser" where
  "detect_parser w file_path =
     (if endswith file_path ''.txt'' then WhatsAppParser
      else if endswith file_path ''.json'' then
        (case json_load w file_path of
           Inr (JObj kvs) \<Rightarrow>
             if ''messages'' \<in> fst ` set kvs then FacebookMessengerParser else GenericJSONParser
         | _ \<Rightarrow> GenericJSONParser)
      else if endswith file_path ''.csv'' then iMessageParser
      else GenericJSONParser)"

definition get_parser :: "world \<Rightarrow> string \<Rightarrow> string option \<Rightarrow> parser" where
  "get_parser w file_path platform =
     (case platform of
        None \<Rightarrow> detect_parser w file_path
      | Some hint \<Rightarrow>
          if hint = [] then detect_parser w file_path
          else (case platform_parser w hint of
                  Some p \<Rightarrow> p
                | None \<Rightarrow> detect_parser w file_path))"

section \<open>Ranges, the statement of the response curve, and sample conversations\<close>

definition in_range :: "real \<Rightarrow> bool" where
  "in_range x \<longleftrightarrow> 0 \<le> x \<and> x \<le> 100"

definition signals_in_range :: "signals \<Rightarrow> bool" where
  "signals_in_range s \<longleftrightarrow>
     in_range (response_time s) \<and> in_range (message_length s) \<and> in_range (emoji_usage s)
     \<and> in_range (question_asking s) \<and> in_range (conversation_initiation s)
     \<and> in_range (enthusiasm s) \<and> in_range (consistency s) \<and> in_range (reciprocity s)"

text \<open>
  The response curve in the words of the specification: 100 below five minutes, then
  straight lines from 100 to 80 up to thirty minutes, from 80 to 60 up to sixty, from 60 to
  40 up to a hundred and eighty, and the slow tail beyond.
\<close>

definition response_curve_spec :: "real \<Rightarrow> real" where
  "response_curve_spec minutes =
     (if minutes < 5 then 100
      else if minutes < 30 then 100 - (minutes - 5) * (20 / 25)
      else if minutes < 60 then 80 - (minutes - 30) * (20 / 30)
      else if minutes < 180 then 60 - (minutes - 60) * (20 / 120)
      else max 20 (40 - (minutes - 180) / 60))"

definition mk :: "string \<Rightarrow> int \<Rightarrow> string \<Rightarrow> string message" where
  "mk who ts txt = \<lparr>msg_text = txt, timestamp = ts, sender = who\<rparr>"

definition frame :: "'s message list \<Rightarrow> 's dataframe" where
  "frame ms = \<lparr>rows = ms, time_gap = None\<rparr>"

definition minute :: int where
  "minute = 60000000"

section \<open>A sample world\<close>

text \<open>
  Files and library answers for the concrete runs below; the hints of these runs are ASCII,
  where \<^verbatim>\<open>str.lower\<close> is \<open>lower\<close>. The text of a file is a token;
  \<open>json_loads\<close> and \<open>csv_rows\<close> give what the libraries read from it:
  \<^item> \<^verbatim>\<open>chat.json\<close>: an array of one object with the keys \<^verbatim>\<open>message\<close>, \<^verbatim>\<open>date\<close>,
    \<^verbatim>\<open>from\<close>;
  \<^item> \<^verbatim>\<open>chat.csv\<close>: a table with the same three columns and the same single row;
  \<^item> \<^verbatim>\<open>export.json\<close>: a Facebook export of a photo (no \<^verbatim>\<open>content\<close>) and a text message;
  \<^item> \<^verbatim>\<open>fb.json\<close>: a Facebook export whose only entry has \<^verbatim>\<open>content\<close> and
    \<^verbatim>\<open>timestamp_ms\<close> but no \<^verbatim>\<open>sender_name\<close>;
  \<^item> \<^verbatim>\<open>chat.txt\<close>: a WhatsApp export of one message followed by a continuation line.
\<close>

definition sample_entry :: "(string \<times> json) list" where
  "sample_entry =
     [(''message'', JStr ''hi''), (''date'', JStr ''2024-01-01 10:00:00''),
      (''from'', JStr ''Ann'')]"

definition sample_photo :: "(string \<times> json) list" where
  "sample_photo =
     [(''sender_name'', JStr ''Ann''), (''timestamp_ms'', JInt 1700000000000),
      (''photos'', JArr [])]"

definition sample_text :: "(string \<times> json) list" where
  "sample_text =
     [(''sender_name'', JStr ''Bob''), (''timestamp_ms'', JInt 1700000060000),
      (''content'', JStr ''hello'')]"

definition sample_export :: json where
  "sample_export =
     JObj [(''participants'', JArr [JObj [(''name'', JStr ''Ann'')]]),
           (''messages'', JArr [JObj sample_photo, JObj sample_text])]"

definition sample_broken_export :: json where
  "sample_broken_export =
     JObj [(''messages'',
            JArr [JObj [(''content'', JStr ''hi''), (''timestamp_ms'', JInt 1700000000000)]])]"

definition sample_line :: string where
  "sample_line = ''12/01/2024, 10:00 - Ann: hi'' @ [CHR 0x0A]"

definition sample_continuation :: string where
  "sample_continuation = ''and a second line'' @ [CHR 0x0A]"

definition sample_world :: world where
  "sample_world =
     \<lparr>files = (\<lambda>p. if p = ''chat.json'' then Some ''J''
                   else if p = ''chat.csv'' then Some ''C''
                   else if p = ''export.json'' then Some ''E''
                   else if p = ''fb.json'' then Some ''F''
                   else if p = ''chat.txt'' then Some (sample_line @ sample_continuation)
                   else None),
      json_loads = (\<lambda>txt. if txt = ''J'' then Some (JArr [JObj sample_entry])
                        else if txt = ''E'' then Some sample_export
                        else if txt = ''F'' then Some sample_broken_export
                        else None),
      csv_rows = (\<lambda>txt. if txt = ''C'' then [sample_entry] else []),
      strptime = (\<lambda>s fmt.
         if s = ''2024-01-01 10:00:00'' \<and> fmt = ''%Y-%m-%d %H:%M:%S''
           then Some 1704103200000000
         else if s = ''12/01/2024 10:00'' \<and> fmt = ''%d/%m/%Y %H:%M''
           then Some 1705053600000000
         else None),
      fromtimestamp = (\<lambda>x. if - 62135596800 \<le> x \<and> x < 253402300800
                            then Inr \<lfloor>x * 1000000\<rfloor> else Inl ValueError),
      now = (\<lambda>i. 1800000000000000 + int i),
      re_match = (\<lambda>line. if line = sample_line
                          then Some (''12/01/2024'', ''10:00'', ''Ann'', ''hi'') else None),
      repr = (\<lambda>v. ''[]''),
      str_lower = lower\<rparr>"

section \<open>Properties of the signal computations\<close>

subsection \<open>Ranges of the piecewise scores\<close>

lemma np_mean_bounds:
  assumes "xs \<noteq> []" and "\<forall>x\<in>set xs. a \<le> x \<and> x \<le> b"
  shows "a \<le> np_mean xs \<and> np_mean xs \<le> b"
proof -
  have n: "0 < real (length xs)" using assms(1) by simp
  have lo: "a * real (length xs) \<le> sum_list xs"
    using assms(2) by (induction xs) (auto simp: algebra_simps)
  have hi: "sum_list xs \<le> b * real (length xs)"
    using assms(2) by (induction xs) (auto simp: algebra_simps)
  show ?thesis unfolding np_mean_def using lo hi n
    by (simp add: pos_le_divide_eq pos_divide_le_eq)
qed

lemma response_time_score_range: "in_range (response_time_score a)"
  by (auto simp add: in_range_def response_time_score_def Let_def min_def max_def)

lemma message_length_score_range: "in_range (message_length_score a)"
  by (auto simp add: in_range_def message_length_score_def Let_def min_def max_def)

lemma emoji_score_range: "0 \<le> r \<Longrightarrow> in_range (emoji_score a r)"
  by (auto simp add: in_range_def emoji_score_def Let_def min_def max_def)

lemma question_score_range: "in_range (question_score a)"
  by (auto simp add: in_range_def question_score_def Let_def min_def max_def)

lemma initiation_score_range: "in_range (initiation_score a)"
  by (auto simp add: in_range_def initiation_score_def Let_def min_def max_def)

lemma consistency_score_range: "in_range (consistency_score a)"
  by (auto simp add: in_range_def consistency_score_def Let_def min_def max_def)

lemma reciprocity_score_range: "in_range (reciprocity_score a)"
  by (auto simp add: in_range_def reciprocity_score_def Let_def min_def max_def)

lemma in_range_consts: "in_range 0" "in_range 50" "in_range 70" "in_range 100"
  by (simp_all add: in_range_def)

lemma response_time_range: "in_range (fst (analyze_response_time df t))"
  using response_time_score_range by (simp add: analyze_response_time_def Let_def in_range_consts)

lemma message_length_range: "in_range (fst (analyze_message_length df t))"
  using message_length_score_range
  by (simp add: analyze_message_length_def Let_def in_range_consts)

lemma emoji_usage_range: "in_range (fst (analyze_emoji_usage el df t))"
  using emoji_score_range by (simp add: analyze_emoji_usage_def Let_def in_range_consts)

lemma question_asking_range: "in_range (fst (analyze_question_asking df t))"
  using question_score_range by (simp add: analyze_question_asking_def Let_def in_range_consts)

lemma conversation_initiation_range: "in_range (fst (analyze_conversation_initiation df t))"
  using initiation_score_range
  by (simp add: analyze_conversation_initiation_def Let_def in_range_consts)

lemma consistency_range: "in_range (fst (analyze_consistency df t))"
  using consistency_score_range by (simp add: analyze_consistency_def Let_def in_range_consts)

lemma reciprocity_range: "in_range (fst (analyze_reciprocity df t))"
  using reciprocity_score_range by (simp add: analyze_reciprocity_def Let_def in_range_consts)

lemma enthusiasm_range:
  assumes "\<forall>s. - 1 \<le> polarity s \<and> polarity s \<le> 1"
  shows "in_range (fst (analyze_enthusiasm polarity df t))"
proof (cases "their_messages df t = []")
  case True
  then show ?thesis by (simp add: analyze_enthusiasm_def in_range_consts)
next
  case False
  let ?their = "map msg_text (their_messages df t)"
  have ne: "map polarity ?their \<noteq> []" using False by simp
  have "\<forall>x\<in>set (map polarity ?their). - 1 \<le> x \<and> x \<le> 1" using assms by auto
  from np_mean_bounds[OF ne this]
  have m: "- 1 \<le> np_mean (map polarity ?their)" "np_mean (map polarity ?their) \<le> 1" by auto
  define c where "c = real (sum_list (map (\<lambda>msg. length (filter (\<lambda>marker.
    sublist marker (lower msg)) enthusiasm_markers)) ?their)) / real (length ?their)"
  have c0: "0 \<le> c" unfolding c_def by simp
  have eq: "fst (analyze_enthusiasm polarity df t)
      = (np_mean (map polarity ?their) + 1) / 2 * 60 + min 40 (c * 100)"
    using False by (simp add: analyze_enthusiasm_def Let_def c_def)
  have "0 \<le> min 40 (c * 100)" "min 40 (c * 100) \<le> 40" using c0 by auto
  moreover have e: "(x + 1) / 2 * 60 = 30 * x + 30" for x :: real by simp
  ultimately show ?thesis using m unfolding eq e in_range_def by (intro conjI; linarith)
qed

lemma round_half_even_range:
  "0 \<le> x \<Longrightarrow> x \<le> of_int n \<Longrightarrow> 0 \<le> round_half_even x \<and> round_half_even x \<le> n"
  unfolding round_half_even_def Let_def by (auto; linarith)

lemma round1_range: "in_range x \<Longrightarrow> in_range (round1 x)"
  using round_half_even_range[of "x * 10" 1000] by (simp add: round1_def in_range_def)

lemma overall_score_range: "signals_in_range s \<Longrightarrow> in_range (overall_score s)"
  unfolding signals_in_range_def in_range_def overall_score_def by (intro conjI; linarith)

lemma round_signals_range: "signals_in_range s \<Longrightarrow> signals_in_range (round_signals s)"
  by (simp add: signals_in_range_def round_signals_def round1_range)

lemma compute_signals_range:
  assumes "\<forall>s. - 1 \<le> polarity s \<and> polarity s \<le> 1"
  shows "signals_in_range (fst (compute_signals el polarity df t))"
proof -
  obtain s1 df1 where a1: "analyze_response_time df t = (s1, df1)" by force
  obtain s2 df2 where a2: "analyze_message_length df1 t = (s2, df2)" by force
  obtain s3 df3 where a3: "analyze_emoji_usage el df2 t = (s3, df3)" by force
  obtain s4 df4 where a4: "analyze_question_asking df3 t = (s4, df4)" by force
  obtain s5 df5 where a5: "analyze_conversation_initiation df4 t = (s5, df5)" by force
  obtain s6 df6 where a6: "analyze_enthusiasm polarity df5 t = (s6, df6)" by force
  obtain s7 df7 where a7: "analyze_consistency df6 t = (s7, df7)" by force
  obtain s8 df8 where a8: "analyze_reciprocity df7 t = (s8, df8)" by force
  have r: "in_range s1" "in_range s2" "in_range s3" "in_range s4" "in_range s5"
    "in_range s6" "in_range s7" "in_range s8"
    using response_time_range[of df t] message_length_range[of df1 t]
      emoji_usage_range[of el df2 t] question_asking_range[of df3 t]
      conversation_initiation_range[of df4 t] enthusiasm_range[OF assms, of df5 t]
      consistency_range[of df6 t] reciprocity_range[of df7 t]
    by (simp_all add: a1 a2 a3 a4 a5 a6 a7 a8)
  show ?thesis
    by (simp add: compute_signals_def a1 a2 a3 a4 a5 a6 a7 a8 signals_in_range_def r)
qed

text \<open>
  C1. With the sentiment polarity in \<open>[-1, 1]\<close>, as the library documents it, each of the
  eight signal scores lies in \<open>[0, 100]\<close> for every sequence and every target, and so do
  the weighted overall score, the reported overall percentage and the reported breakdown.
  The enthusiasm score needs no clamp: its two terms stay within 60 and 40.
\<close>

theorem scores_in_range:
  assumes "\<forall>s. - 1 \<le> polarity s \<and> polarity s \<le> 1"
  shows "in_range (fst (analyze_response_time df target))
    \<and> in_range (fst (analyze_message_length df target))
    \<and> in_range (fst (analyze_emoji_usage emoji_list df target))
    \<and> in_range (fst (analyze_question_asking df target))
    \<and> in_range (fst (analyze_conversation_initiation df target))
    \<and> in_range (fst (analyze_enthusiasm polarity df target))
    \<and> in_range (fst (analyze_consistency df target))
    \<and> in_range (fst (analyze_reciprocity df target))
    \<and> signals_in_range (fst (compute_signals emoji_list polarity df target))
    \<and> in_range (overall_score (fst (compute_signals emoji_list polarity df target)))
    \<and> in_range (overall_percentage
          (fst (calculate_overall_interest emoji_list polarity df target)))
    \<and> signals_in_range (signal_breakdown
          (fst (calculate_overall_interest emoji_list polarity df target)))"
proof -
  let ?s = "fst (compute_signals emoji_list polarity df target)"
  have s: "signals_in_range ?s" by (rule compute_signals_range[OF assms])
  have o: "in_range (overall_score ?s)" by (rule overall_score_range[OF s])
  have p: "overall_percentage (fst (calculate_overall_interest emoji_list polarity df target))
      = round1 (overall_score ?s)"
    by (simp add: calculate_overall_interest_def split_beta Let_def)
  have b: "signal_breakdown (fst (calculate_overall_interest emoji_list polarity df target))
      = round_signals ?s"
    by (simp add: calculate_overall_interest_def split_beta Let_def)
  show ?thesis
    unfolding p b
    using s o round1_range[OF o] round_signals_range[OF s] response_time_range
      message_length_range emoji_usage_range question_asking_range
      conversation_initiation_range enthusiasm_range[OF assms] consistency_range
      reciprocity_range
    by simp
qed

theorem scores_in_range_witness:
  "(\<forall>s. - 1 \<le> (\<lambda>_. 0 :: real) s \<and> (\<lambda>_. 0 :: real) s \<le> 1)
   \<and> in_range (fst (analyze_enthusiasm (\<lambda>_. 0)
        (frame [mk ''A'' 0 ''hi'', mk ''B'' (2 * minute) ''wow!'']) ''B''))
   \<and> in_range (overall_percentage (fst (calculate_overall_interest (\<lambda>_. []) (\<lambda>_. 0)
        (frame [mk ''A'' 0 ''hi'', mk ''B'' (2 * minute) ''wow!'']) ''B'')))"
  using scores_in_range[of "\<lambda>_. 0" "frame [mk ''A'' 0 ''hi'', mk ''B'' (2 * minute) ''wow!'']"
      "''B''" "\<lambda>_. []"]
  by simp

subsection \<open>Reciprocity\<close>

lemma their_your_length:
  "length (their_messages df t) + length (your_messages df t) = length (rows df)"
  unfolding their_messages_def your_messages_def by (rule sum_length_filter_compl)

lemma reciprocity_short: "length (rows df) < 2 \<Longrightarrow> fst (analyze_reciprocity df target) = 50"
  by (simp add: analyze_reciprocity_def)

lemma reciprocity_only_theirs:
  assumes "2 \<le> length (rows df)" "length (your_messages df target) = 0"
  shows "fst (analyze_reciprocity df target) = 100"
proof -
  have "length (their_messages df target) = length (rows df)"
    using their_your_length[of df target] assms by simp
  moreover have "rows df \<noteq> []" using assms by auto
  ultimately show ?thesis using assms by (simp add: analyze_reciprocity_def Let_def)
qed

lemma reciprocity_none_of_theirs:
  assumes "2 \<le> length (rows df)" "length (their_messages df target) = 0"
  shows "fst (analyze_reciprocity df target) = 20"
proof -
  have "rows df \<noteq> []" using assms by auto
  then show ?thesis
    using assms by (simp add: analyze_reciprocity_def Let_def reciprocity_score_def)
qed

lemma reciprocity_ten_each:
  assumes "length (their_messages df target) = 10" "length (your_messages df target) = 10"
  shows "fst (analyze_reciprocity df target) = 100"
proof -
  have "length (rows df) = 20"
    using their_your_length[of df target] assms by simp
  then show ?thesis
    using assms by (simp add: analyze_reciprocity_def Let_def reciprocity_score_def)
qed

lemma sample_frames:
  "length (rows (frame ms)) = length ms"
  "their_messages (frame ms) t = filter (\<lambda>m. sender m = t) ms"
  "your_messages (frame ms) t = filter (\<lambda>m. sender m \<noteq> t) ms"
  "sender (mk a ts x) = a"
  by (simp_all add: frame_def their_messages_def your_messages_def mk_def)

text \<open>
  C2, as the code has it. A sequence of fewer than two messages scores the neutral 50 before
  any count is looked at. From two messages on: no message of the other party gives 100, no
  message of the target gives 20, the floor of the outer branch; and ten messages each give
  100.
\<close>

theorem reciprocity_degenerate_and_ideal:
  "(length (rows df) < 2 \<longrightarrow> fst (analyze_reciprocity df target) = 50)
   \<and> (2 \<le> length (rows df) \<and> length (your_messages df target) = 0
        \<longrightarrow> fst (analyze_reciprocity df target) = 100)
   \<and> (2 \<le> length (rows df) \<and> length (their_messages df target) = 0
        \<longrightarrow> fst (analyze_reciprocity df target) = 20)
   \<and> (length (their_messages df target) = 10 \<and> length (your_messages df target) = 10
        \<longrightarrow> fst (analyze_reciprocity df target) = 100)"
  using reciprocity_short reciprocity_only_theirs reciprocity_none_of_theirs
    reciprocity_ten_each by blast

theorem reciprocity_degenerate_and_ideal_witness:
  "length (rows (frame [mk ''B'' 0 ''hi''])) < 2
   \<and> fst (analyze_reciprocity (frame [mk ''B'' 0 ''hi'']) ''B'') = 50
   \<and> 2 \<le> length (rows (frame [mk ''B'' 0 ''hi'', mk ''B'' minute ''you there'']))
   \<and> length (your_messages (frame [mk ''B'' 0 ''hi'', mk ''B'' minute ''you there'']) ''B'') = 0
   \<and> fst (analyze_reciprocity (frame [mk ''B'' 0 ''hi'', mk ''B'' minute ''you there'']) ''B'')
       = 100
   \<and> 2 \<le> length (rows (frame [mk ''A'' 0 ''hi'', mk ''A'' minute ''you there'']))
   \<and> length (their_messages (frame [mk ''A'' 0 ''hi'', mk ''A'' minute ''you there'']) ''B'') = 0
   \<and> fst (analyze_reciprocity (frame [mk ''A'' 0 ''hi'', mk ''A'' minute ''you there'']) ''B'')
       = 20
   \<and> length (their_messages (frame (replicate 10 (mk ''A'' 0 ''a'')
         @ replicate 10 (mk ''B'' 0 ''b''))) ''B'') = 10
   \<and> length (your_messages (frame (replicate 10 (mk ''A'' 0 ''a'')
         @ replicate 10 (mk ''B'' 0 ''b''))) ''B'') = 10
   \<and> fst (analyze_reciprocity (frame (replicate 10 (mk ''A'' 0 ''a'')
         @ replicate 10 (mk ''B'' 0 ''b''))) ''B'') = 100"
  using reciprocity_degenerate_and_ideal[of "frame [mk ''B'' 0 ''hi'']" "''B''"]
    reciprocity_degenerate_and_ideal[of
      "frame [mk ''B'' 0 ''hi'', mk ''B'' minute ''you there'']" "''B''"]
    reciprocity_degenerate_and_ideal[of
      "frame [mk ''A'' 0 ''hi'', mk ''A'' minute ''you there'']" "''B''"]
    reciprocity_degenerate_and_ideal[of
      "frame (replicate 10 (mk ''A'' 0 ''a'') @ replicate 10 (mk ''B'' 0 ''b''))" "''B''"]
  by (simp add: sample_frames)

text \<open>
  The claim as stated fails twice. A single message of the target, with none of the other
  party, scores 50 and not 100; two messages of the other party and none of the target score
  20 and not 0.
\<close>

theorem reciprocity_counterexample:
  "length (your_messages (frame [mk ''B'' 0 ''hi'']) ''B'') = 0
   \<and> 0 < length (their_messages (frame [mk ''B'' 0 ''hi'']) ''B'')
   \<and> fst (analyze_reciprocity (frame [mk ''B'' 0 ''hi'']) ''B'') = 50
   \<and> length (their_messages (frame [mk ''A'' 0 ''hi'', mk ''A'' minute ''you there'']) ''B'') = 0
   \<and> 0 < length (your_messages (frame [mk ''A'' 0 ''hi'', mk ''A'' minute ''you there'']) ''B'')
   \<and> fst (analyze_reciprocity (frame [mk ''A'' 0 ''hi'', mk ''A'' minute ''you there'']) ''B'')
       = 20"
  by (simp add: analyze_reciprocity_def reciprocity_score_def sample_frames)

subsection \<open>Response time\<close>

text \<open>
  What holds of the response-time signal: the neutral 50 without a response pair, 100 for a
  reply after two minutes whatever the start, and the stated curve below thirty minutes and
  from a hundred and eighty on.
\<close>

lemma response_time_default:
  "response_times (rows df) target = [] \<Longrightarrow> fst (analyze_response_time df target) = 50"
  by (simp add: analyze_response_time_def)

lemma response_time_two_minutes:
  "a \<noteq> b \<Longrightarrow>
   fst (analyze_response_time (frame [mk a t0 x, mk b (t0 + 2 * minute) y]) b) = 100"
  by (simp add: analyze_response_time_def frame_def mk_def minute_def total_seconds_def
      np_mean_def response_time_score_def)

lemma response_curve_agrees_outside_middle:
  assumes "m < 30 \<or> 180 \<le> m"
  shows "response_time_score m = response_curve_spec m"
proof -
  consider "m < 5" | "5 \<le> m" "m < 30" | "180 \<le> m" using assms by linarith
  then show ?thesis
  proof cases
    case 3
    then have "40 - (m - 180) / 60 \<le> 40" by simp
    then have "min 100 (max 20 (40 - (m - 180) / 60)) = max 20 (40 - (m - 180) / 60)"
      by linarith
    with 3 show ?thesis by (simp add: response_time_score_def response_curve_spec_def)
  qed (simp_all add: response_time_score_def response_curve_spec_def)
qed

text \<open>
  C3. Between thirty and a hundred and eighty minutes the source's curve is not the stated
  one: its slopes are the rounded 0.67 and 0.17, so the two segments end at 59.9 and 39.6
  instead of 60 and 40. A reply after 59.9 minutes scores 59.967, where the stated line
  gives 60.067; that is less than the 60 of the slower reply after 60 minutes.
\<close>

theorem response_time_curve_divergence:
  "response_times (rows (frame [mk ''A'' 0 ''hi'', mk ''B'' 3594000000 ''yo''])) ''B''
     = [599 / 10]
   \<and> fst (analyze_response_time (frame [mk ''A'' 0 ''hi'', mk ''B'' 3594000000 ''yo'']) ''B'')
     = 59967 / 1000
   \<and> response_curve_spec (599 / 10) = 901 / 15
   \<and> fst (analyze_response_time (frame [mk ''A'' 0 ''hi'', mk ''B'' (60 * minute) ''yo'']) ''B'')
     = 60"
  by (simp add: analyze_response_time_def frame_def mk_def minute_def total_seconds_def
      np_mean_def response_time_score_def response_curve_spec_def)

subsection \<open>What the computations do to the caller's frame\<close>

lemma response_time_frame: "snd (analyze_response_time df t) = df"
  by (simp add: analyze_response_time_def Let_def)

lemma message_length_frame: "snd (analyze_message_length df t) = df"
  by (simp add: analyze_message_length_def Let_def)

lemma emoji_usage_frame: "snd (analyze_emoji_usage el df t) = df"
  by (simp add: analyze_emoji_usage_def Let_def)

lemma question_asking_frame: "snd (analyze_question_asking df t) = df"
  by (simp add: analyze_question_asking_def Let_def)

lemma enthusiasm_frame: "snd (analyze_enthusiasm pol df t) = df"
  by (simp add: analyze_enthusiasm_def Let_def)

lemma consistency_frame: "snd (analyze_consistency df t) = df"
  by (simp add: analyze_consistency_def Let_def)

lemma reciprocity_frame: "snd (analyze_reciprocity df t) = df"
  by (simp add: analyze_reciprocity_def Let_def)

lemma conversation_initiation_frame:
  "snd (analyze_conversation_initiation df t) =
     (if length (rows df) < 2 then df
      else df\<lparr>time_gap :=
        Some (map (map_option (\<lambda>d. total_seconds d / 3600)) (diff (map timestamp (rows df))))\<rparr>)"
  by (simp add: analyze_conversation_initiation_def Let_def)

lemma compute_signals_frame:
  "snd (compute_signals el pol df t) = snd (analyze_conversation_initiation df t)"
proof -
  obtain s1 df1 where a1: "analyze_response_time df t = (s1, df1)" by force
  obtain s2 df2 where a2: "analyze_message_length df1 t = (s2, df2)" by force
  obtain s3 df3 where a3: "analyze_emoji_usage el df2 t = (s3, df3)" by force
  obtain s4 df4 where a4: "analyze_question_asking df3 t = (s4, df4)" by force
  obtain s5 df5 where a5: "analyze_conversation_initiation df4 t = (s5, df5)" by force
  obtain s6 df6 where a6: "analyze_enthusiasm pol df5 t = (s6, df6)" by force
  obtain s7 df7 where a7: "analyze_consistency df6 t = (s7, df7)" by force
  obtain s8 df8 where a8: "analyze_reciprocity df7 t = (s8, df8)" by force
  have "df1 = df" using response_time_frame[of df t] a1 by simp
  moreover have "df2 = df1" using message_length_frame[of df1 t] a2 by simp
  moreover have "df3 = df2" using emoji_usage_frame[of el df2 t] a3 by simp
  moreover have "df4 = df3" using question_asking_frame[of df3 t] a4 by simp
  moreover have "df6 = df5" using enthusiasm_frame[of pol df5 t] a6 by simp
  moreover have "df7 = df6" using consistency_frame[of df6 t] a7 by simp
  moreover have "df8 = df7" using reciprocity_frame[of df7 t] a8 by simp
  moreover have "snd (compute_signals el pol df t) = df8"
    by (simp add: compute_signals_def a1 a2 a3 a4 a5 a6 a7 a8)
  ultimately show ?thesis using a5 by simp
qed

text \<open>
  C10, as the code has it. Seven signal computations return the caller's frame as they got
  it; the consistency computation adds its date column to a copy. The initiation
  computation assigns the gap column on the caller's frame when it holds two messages or
  more, and leaves the messages and their order alone. The aggregator calls it, so after the
  aggregator the caller's frame is the one the initiation computation leaves: same messages,
  same order, and the gap column, which nothing removes.
\<close>

theorem frame_effects:
  "snd (analyze_response_time df target) = df
   \<and> snd (analyze_message_length df target) = df
   \<and> snd (analyze_emoji_usage emoji_list df target) = df
   \<and> snd (analyze_question_asking df target) = df
   \<and> snd (analyze_enthusiasm polarity df target) = df
   \<and> snd (analyze_consistency df target) = df
   \<and> snd (analyze_reciprocity df target) = df
   \<and> snd (analyze_conversation_initiation df target) =
       (if length (rows df) < 2 then df
        else df\<lparr>time_gap :=
          Some (map (map_option (\<lambda>d. total_seconds d / 3600))
                  (diff (map timestamp (rows df))))\<rparr>)
   \<and> rows (snd (analyze_conversation_initiation df target)) = rows df
   \<and> snd (calculate_overall_interest emoji_list polarity df target)
       = snd (analyze_conversation_initiation df target)
   \<and> rows (snd (calculate_overall_interest emoji_list polarity df target)) = rows df"
proof -
  have c: "snd (calculate_overall_interest emoji_list polarity df target)
      = snd (compute_signals emoji_list polarity df target)"
    by (simp add: calculate_overall_interest_def split_beta Let_def)
  have r: "rows (snd (analyze_conversation_initiation df target)) = rows df"
    by (simp add: conversation_initiation_frame)
  show ?thesis
    unfolding c compute_signals_frame r
    by (simp add: response_time_frame message_length_frame emoji_usage_frame
        question_asking_frame enthusiasm_frame consistency_frame reciprocity_frame
        conversation_initiation_frame)
qed

text \<open>
  The claim as stated fails for the aggregator: called on a frame of two messages that has
  no gap column, it returns with the column assigned on the caller's frame.
\<close>

theorem aggregator_frame_counterexample:
  "time_gap (frame [mk ''A'' 0 ''hi'', mk ''B'' (2 * minute) ''yo'']) = None
   \<and> time_gap (snd (calculate_overall_interest (\<lambda>_. []) (\<lambda>_. 0)
        (frame [mk ''A'' 0 ''hi'', mk ''B'' (2 * minute) ''yo'']) ''B''))
       = Some [None, Some (1 / 30)]
   \<and> snd (calculate_overall_interest (\<lambda>_. []) (\<lambda>_. 0)
        (frame [mk ''A'' 0 ''hi'', mk ''B'' (2 * minute) ''yo'']) ''B'')
       \<noteq> frame [mk ''A'' 0 ''hi'', mk ''B'' (2 * minute) ''yo'']"
proof -
  have c: "snd (calculate_overall_interest el pol df t) = snd (compute_signals el pol df t)"
    for el pol df t
    by (simp add: calculate_overall_interest_def split_beta Let_def)
  have g: "time_gap (snd (calculate_overall_interest (\<lambda>_. []) (\<lambda>_. 0)
        (frame [mk ''A'' 0 ''hi'', mk ''B'' (2 * minute) ''yo'']) ''B''))
       = Some [None, Some (1 / 30)]"
    unfolding c compute_signals_frame conversation_initiation_frame
    by (simp add: frame_def mk_def minute_def diff_def total_seconds_def)
  have n: "time_gap (frame [mk ''A'' 0 ''hi'', mk ''B'' (2 * minute) ''yo'']) = None"
    by (simp add: frame_def)
  from g n show ?thesis by auto
qed

section \<open>Properties of loading\<close>


lemma stable_sort_keeps_ties: "keeps_tie_order key xs (stable_sort key xs)"
  by (simp add: keeps_tie_order_def stable_sort_def sort_key_stable)





section \<open>Properties of the parsers\<close>

subsection \<open>Instagram\<close>

text \<open>
  C9. For every world and every file the Instagram parser returns what the Facebook parser
  returns, messages or error, also when reached through the dispatch.
\<close>

theorem instagram_is_facebook:
  "instagram_parse w file_path = facebook_parse w file_path
   \<and> parse w InstagramMessengerParser file_path = parse w FacebookMessengerParser file_path"
  by (simp add: instagram_parse_def parse_def)

subsection \<open>Parser selection\<close>

lemma endswith_two: "endswith p a \<Longrightarrow> endswith p b \<Longrightarrow> suffix a b \<or> suffix b a"
  unfolding endswith_def by (rule suffix_same_cases)

lemma csv_not_txt: "endswith p ''.csv'' \<Longrightarrow> \<not> endswith p ''.txt''"
  using endswith_two[of p "''.csv''" "''.txt''"] by (auto simp add: suffix_to_prefix)

lemma csv_not_json: "endswith p ''.csv'' \<Longrightarrow> \<not> endswith p ''.json''"
  using endswith_two[of p "''.csv''" "''.json''"] by (auto simp add: suffix_to_prefix)

lemma json_not_txt: "endswith p ''.json'' \<Longrightarrow> \<not> endswith p ''.txt''"
  using endswith_two[of p "''.json''" "''.txt''"] by (auto simp add: suffix_to_prefix)

lemma detect_json:
  assumes "endswith p ''.json''"
  shows "detect_parser w p =
     (if \<exists>kvs. json_load w p = Inr (JObj kvs) \<and> ''messages'' \<in> fst ` set kvs
      then FacebookMessengerParser else GenericJSONParser)"
  using assms json_not_txt[OF assms]
  by (auto simp add: detect_parser_def split: sum.splits json.splits)

lemma whatsapp_only:
  "\<not> sublist ''facebook'' ''whatsapp''" "\<not> sublist ''messenger'' ''whatsapp''"
  "\<not> sublist ''instagram'' ''whatsapp''" "\<not> sublist ''ig'' ''whatsapp''"
  "\<not> sublist ''imessage'' ''whatsapp''" "\<not> sublist ''apple'' ''whatsapp''"
  "sublist ''whatsapp'' ''whatsapp''"
  by code_simp+

text \<open>
  C7, as the code has it. The lowered hint is tested for the Facebook, Instagram and
  iMessage substrings before it is tested for \<^verbatim>\<open>whatsapp\<close>, so a hint whose lowered form
  contains \<^verbatim>\<open>whatsapp\<close> yields the WhatsApp parser when that form contains none of the six
  substrings tested earlier; the hint \<^verbatim>\<open>whatsapp\<close>, which \<^verbatim>\<open>str.lower\<close> leaves as it is, does,
  whatever the file. Without a hint the extension decides as stated, and a hint whose
  lowered form has none of the seven substrings gives what no hint gives.
\<close>

theorem parser_selection:
  "(hint \<noteq> [] \<and> sublist ''whatsapp'' (str_lower w hint)
      \<and> \<not> sublist ''facebook'' (str_lower w hint) \<and> \<not> sublist ''messenger'' (str_lower w hint)
      \<and> \<not> sublist ''instagram'' (str_lower w hint) \<and> \<not> sublist ''ig'' (str_lower w hint)
      \<and> \<not> sublist ''imessage'' (str_lower w hint) \<and> \<not> sublist ''apple'' (str_lower w hint)
      \<longrightarrow> get_parser w file_path (Some hint) = WhatsAppParser)
   \<and> (str_lower w ''whatsapp'' = ''whatsapp''
      \<longrightarrow> get_parser w file_path (Some ''whatsapp'') = WhatsAppParser)
   \<and> (endswith file_path ''.txt'' \<longrightarrow> get_parser w file_path None = WhatsAppParser)
   \<and> (endswith file_path ''.csv'' \<longrightarrow> get_parser w file_path None = iMessageParser)
   \<and> (endswith file_path ''.json'' \<longrightarrow>
        get_parser w file_path None =
          (if \<exists>kvs. json_load w file_path = Inr (JObj kvs) \<and> ''messages'' \<in> fst ` set kvs
           then FacebookMessengerParser else GenericJSONParser))
   \<and> (\<not> sublist ''facebook'' (str_lower w hint) \<and> \<not> sublist ''messenger'' (str_lower w hint)
      \<and> \<not> sublist ''instagram'' (str_lower w hint) \<and> \<not> sublist ''ig'' (str_lower w hint)
      \<and> \<not> sublist ''imessage'' (str_lower w hint) \<and> \<not> sublist ''apple'' (str_lower w hint)
      \<and> \<not> sublist ''whatsapp'' (str_lower w hint)
      \<longrightarrow> get_parser w file_path (Some hint) = get_parser w file_path None)"
proof -
  have 1: "hint \<noteq> [] \<and> sublist ''whatsapp'' (str_lower w hint)
      \<and> \<not> sublist ''facebook'' (str_lower w hint) \<and> \<not> sublist ''messenger'' (str_lower w hint)
      \<and> \<not> sublist ''instagram'' (str_lower w hint) \<and> \<not> sublist ''ig'' (str_lower w hint)
      \<and> \<not> sublist ''imessage'' (str_lower w hint) \<and> \<not> sublist ''apple'' (str_lower w hint)
      \<longrightarrow> get_parser w file_path (Some hint) = WhatsAppParser"
    by (simp add: get_parser_def platform_parser_def)
  have 2: "str_lower w ''whatsapp'' = ''whatsapp''
      \<longrightarrow> get_parser w file_path (Some ''whatsapp'') = WhatsAppParser"
    by (simp add: get_parser_def platform_parser_def whatsapp_only)
  have 3: "endswith file_path ''.txt'' \<longrightarrow> get_parser w file_path None = WhatsAppParser"
    by (simp add: get_parser_def detect_parser_def)
  have 4: "endswith file_path ''.csv'' \<longrightarrow> get_parser w file_path None = iMessageParser"
    using csv_not_txt csv_not_json by (simp add: get_parser_def detect_parser_def)
  have 5: "endswith file_path ''.json'' \<longrightarrow>
        get_parser w file_path None =
          (if \<exists>kvs. json_load w file_path = Inr (JObj kvs) \<and> ''messages'' \<in> fst ` set kvs
           then FacebookMessengerParser else GenericJSONParser)"
    using detect_json[of file_path w] by (simp add: get_parser_def)
  have 6: "\<not> sublist ''facebook'' (str_lower w hint) \<and> \<not> sublist ''messenger'' (str_lower w hint)
      \<and> \<not> sublist ''instagram'' (str_lower w hint) \<and> \<not> sublist ''ig'' (str_lower w hint)
      \<and> \<not> sublist ''imessage'' (str_lower w hint) \<and> \<not> sublist ''apple'' (str_lower w hint)
      \<and> \<not> sublist ''whatsapp'' (str_lower w hint)
      \<longrightarrow> get_parser w file_path (Some hint) = get_parser w file_path None"
    by (simp add: get_parser_def platform_parser_def)
  from 1 2 3 4 5 6 show ?thesis by blast
qed

lemma sample_hints:
  "str_lower sample_world ''WhatsApp'' = ''whatsapp''"
  "str_lower sample_world ''whatsapp'' = ''whatsapp''"
  "str_lower sample_world ''telegram'' = ''telegram''"
  "\<not> sublist ''facebook'' ''telegram''" "\<not> sublist ''messenger'' ''telegram''"
  "\<not> sublist ''instagram'' ''telegram''" "\<not> sublist ''ig'' ''telegram''"
  "\<not> sublist ''imessage'' ''telegram''" "\<not> sublist ''apple'' ''telegram''"
  "\<not> sublist ''whatsapp'' ''telegram''"
  by code_simp+

lemma sample_paths:
  "endswith ''chat.txt'' ''.txt''" "endswith ''chat.csv'' ''.csv''"
  "endswith ''export.json'' ''.json''"
  "json_load sample_world ''export.json'' = Inr sample_export"
  by code_simp+

theorem parser_selection_witness:
  "''WhatsApp'' \<noteq> [] \<and> sublist ''whatsapp'' (str_lower sample_world ''WhatsApp'')
   \<and> \<not> sublist ''facebook'' (str_lower sample_world ''WhatsApp'')
   \<and> \<not> sublist ''messenger'' (str_lower sample_world ''WhatsApp'')
   \<and> \<not> sublist ''instagram'' (str_lower sample_world ''WhatsApp'')
   \<and> \<not> sublist ''ig'' (str_lower sample_world ''WhatsApp'')
   \<and> \<not> sublist ''imessage'' (str_lower sample_world ''WhatsApp'')
   \<and> \<not> sublist ''apple'' (str_lower sample_world ''WhatsApp'')
   \<and> get_parser sample_world ''export.json'' (Some ''WhatsApp'') = WhatsAppParser
   \<and> str_lower sample_world ''whatsapp'' = ''whatsapp''
   \<and> get_parser sample_world ''export.json'' (Some ''whatsapp'') = WhatsAppParser
   \<and> endswith ''chat.txt'' ''.txt''
   \<and> get_parser sample_world ''chat.txt'' None = WhatsAppParser
   \<and> endswith ''chat.csv'' ''.csv''
   \<and> get_parser sample_world ''chat.csv'' None = iMessageParser
   \<and> endswith ''export.json'' ''.json''
   \<and> get_parser sample_world ''export.json'' None = FacebookMessengerParser
   \<and> \<not> sublist ''whatsapp'' (str_lower sample_world ''telegram'')
   \<and> get_parser sample_world ''chat.txt'' (Some ''telegram'') = WhatsAppParser"
  using parser_selection[of "''WhatsApp''" sample_world "''export.json''"]
    parser_selection[of "''telegram''" sample_world "''chat.txt''"]
    parser_selection[of "''telegram''" sample_world "''chat.csv''"]
  by (simp add: sample_hints whatsapp_only sample_paths sample_export_def)

text \<open>
  The claim as stated fails for a hint that contains \<^verbatim>\<open>whatsapp\<close> and an earlier substring:
  \<^verbatim>\<open>WhatsApp Messenger\<close> yields the Facebook parser, also for a \<^verbatim>\<open>.txt\<close> file.
\<close>

theorem whatsapp_hint_counterexample:
  "sublist ''whatsapp'' (str_lower sample_world ''WhatsApp Messenger'')
   \<and> get_parser sample_world ''chat.txt'' (Some ''WhatsApp Messenger'')
       = FacebookMessengerParser"
  by code_simp

subsection \<open>Loosely typed timestamps\<close>

lemma try_formats_none:
  "try_formats w (JStr s) fmts = None \<longleftrightarrow> (\<forall>fmt\<in>set fmts. strptime w s fmt = None)"
  by (induction fmts) (auto split: option.splits)

lemma try_formats_not_string: "(\<And>s. ts \<noteq> JStr s) \<Longrightarrow> try_formats w ts fmts = None"
  by (induction fmts) (auto split: json.splits)

lemma try_formats_first:
  assumes "k < length fmts" and "strptime w s (fmts ! k) = Some t"
    and "\<forall>j<k. strptime w s (fmts ! j) = None"
  shows "try_formats w (JStr s) fmts = Some t"
  using assms
proof (induction fmts arbitrary: k)
  case Nil
  then show ?case by simp
next
  case (Cons fmt fmts)
  show ?case
  proof (cases k)
    case 0
    with Cons.prems show ?thesis by simp
  next
    case (Suc k')
    have h: "strptime w s fmt = None" using Cons.prems(3) Suc by auto
    have "try_formats w (JStr s) fmts = Some t"
    proof (rule Cons.IH[of k'])
      show "k' < length fmts" using Cons.prems(1) Suc by simp
      show "strptime w s (fmts ! k') = Some t" using Cons.prems(2) Suc by simp
      show "\<forall>j<k'. strptime w s (fmts ! j) = None"
      proof (intro allI impI)
        fix j assume "j < k'"
        then have "Suc j < k" using Suc by simp
        with Cons.prems(3) have "strptime w s ((fmt # fmts) ! Suc j) = None" by blast
        then show "strptime w s (fmts ! j) = None" by simp
      qed
    qed
    with h show ?thesis by simp
  qed
qed

text \<open>
  C8, as the code has it. Both parsers try their formats in the order of the list and return
  the first that parses; a string that no format parses becomes the current time, and the
  parse goes on. Only the generic parser reads a number as epoch seconds, through
  \<^verbatim>\<open>datetime.fromtimestamp\<close>, whose error, if it raises, is not caught. The iMessage parser has
  no numeric branch: a number fails every format and becomes the current time.
\<close>

theorem timestamp_parsing:
  "(k < length imessage_formats \<and> strptime w s (imessage_formats ! k) = Some t
      \<and> (\<forall>j<k. strptime w s (imessage_formats ! j) = None)
      \<longrightarrow> imessage_parse_timestamp w i (JStr s) = t)
   \<and> (k < length generic_formats \<and> strptime w s (generic_formats ! k) = Some t
      \<and> (\<forall>j<k. strptime w s (generic_formats ! j) = None)
      \<longrightarrow> generic_parse_timestamp w i (JStr s) = Inr t)
   \<and> ((\<forall>fmt\<in>set imessage_formats. strptime w s fmt = None)
      \<longrightarrow> imessage_parse_timestamp w i (JStr s) = now w i)
   \<and> ((\<forall>fmt\<in>set generic_formats. strptime w s fmt = None)
      \<longrightarrow> generic_parse_timestamp w i (JStr s) = Inr (now w i))
   \<and> generic_parse_timestamp w i (JInt n) = fromtimestamp w (of_int n)
   \<and> generic_parse_timestamp w i (JFloat x) = fromtimestamp w x
   \<and> imessage_parse_timestamp w i (JInt n) = now w i
   \<and> imessage_parse_timestamp w i (JFloat x) = now w i"
proof -
  have 1: "k < length imessage_formats \<and> strptime w s (imessage_formats ! k) = Some t
      \<and> (\<forall>j<k. strptime w s (imessage_formats ! j) = None)
      \<longrightarrow> imessage_parse_timestamp w i (JStr s) = t"
    using try_formats_first[of k imessage_formats w s t]
    by (simp add: imessage_parse_timestamp_def)
  have 2: "k < length generic_formats \<and> strptime w s (generic_formats ! k) = Some t
      \<and> (\<forall>j<k. strptime w s (generic_formats ! j) = None)
      \<longrightarrow> generic_parse_timestamp w i (JStr s) = Inr t"
    using try_formats_first[of k generic_formats w s t]
    by (simp add: generic_parse_timestamp_def py_str_def)
  have 3: "(\<forall>fmt\<in>set imessage_formats. strptime w s fmt = None)
      \<longrightarrow> imessage_parse_timestamp w i (JStr s) = now w i"
    using try_formats_none[of w s imessage_formats]
    by (auto simp add: imessage_parse_timestamp_def)
  have 4: "(\<forall>fmt\<in>set generic_formats. strptime w s fmt = None)
      \<longrightarrow> generic_parse_timestamp w i (JStr s) = Inr (now w i)"
    using try_formats_none[of w s generic_formats]
    by (auto simp add: generic_parse_timestamp_def py_str_def)
  have 5: "generic_parse_timestamp w i (JInt n) = fromtimestamp w (of_int n)"
    "generic_parse_timestamp w i (JFloat x) = fromtimestamp w x"
    by (simp_all add: generic_parse_timestamp_def)
  have 6: "imessage_parse_timestamp w i (JInt n) = now w i"
    "imessage_parse_timestamp w i (JFloat x) = now w i"
    by (simp_all add: imessage_parse_timestamp_def try_formats_not_string)
  from 1 2 3 4 5 6 show ?thesis by blast
qed

lemma sample_strptime:
  "strptime sample_world ''2024-01-01 10:00:00'' ''%Y-%m-%d %H:%M:%S'' = Some 1704103200000000"
  "strptime sample_world ''next tuesday'' fmt = None"
  "now sample_world 3 = 1800000000000003"
  by (simp_all add: sample_world_def)

theorem timestamp_parsing_witness:
  "0 < length imessage_formats
   \<and> strptime sample_world ''2024-01-01 10:00:00'' (imessage_formats ! 0)
       = Some 1704103200000000
   \<and> imessage_parse_timestamp sample_world 3 (JStr ''2024-01-01 10:00:00'')
       = 1704103200000000
   \<and> 0 < length generic_formats
   \<and> strptime sample_world ''2024-01-01 10:00:00'' (generic_formats ! 0)
       = Some 1704103200000000
   \<and> generic_parse_timestamp sample_world 3 (JStr ''2024-01-01 10:00:00'')
       = Inr 1704103200000000
   \<and> list_all (\<lambda>fmt. strptime sample_world ''next tuesday'' fmt = None) imessage_formats
   \<and> imessage_parse_timestamp sample_world 3 (JStr ''next tuesday'') = 1800000000000003
   \<and> list_all (\<lambda>fmt. strptime sample_world ''next tuesday'' fmt = None) generic_formats
   \<and> generic_parse_timestamp sample_world 3 (JStr ''next tuesday'') = Inr 1800000000000003"
  using timestamp_parsing[of 0 sample_world "''2024-01-01 10:00:00''" 1704103200000000 3]
    timestamp_parsing[of 0 sample_world "''next tuesday''" 0 3]
  by (simp add: sample_strptime imessage_formats_def generic_formats_def)

text \<open>
  The claim as stated fails for the iMessage parser: the number 1700000000, which
  \<^verbatim>\<open>fromtimestamp\<close> reads as an instant of 2023, becomes the current time.
\<close>

theorem imessage_numeric_counterexample:
  "imessage_parse_timestamp sample_world 0 (JInt 1700000000) = now sample_world 0
   \<and> generic_parse_timestamp sample_world 0 (JInt 1700000000) = Inr 1700000000000000
   \<and> now sample_world 0 \<noteq> 1700000000000000"
  by code_simp

subsection \<open>Aliases of the iMessage parser\<close>

text \<open>
  C6. The two shapes do not resolve aliases alike. For an entry that names its fields
  \<^verbatim>\<open>message\<close>, \<^verbatim>\<open>date\<close> and \<^verbatim>\<open>from\<close>, the CSV branch takes all three; the JSON branch looks up
  only \<^verbatim>\<open>text\<close> and \<^verbatim>\<open>timestamp\<close>, so the text is empty and the time is the current time, and
  only the sender is resolved through its alias. The two sample files hold the same entry.
\<close>

theorem imessage_json_ignores_aliases:
  "imessage_json_entry w i (JObj [(''message'', m), (''date'', d), (''from'', f)])
     = Inr (Some \<lparr>msg_text = JStr [], timestamp = now w i, sender = f\<rparr>)
   \<and> imessage_csv_row w i [(''message'', m), (''date'', d), (''from'', f)]
     = Inr (Some \<lparr>msg_text = m, timestamp = imessage_parse_timestamp w i d, sender = f\<rparr>)
   \<and> imessage_parse sample_world ''chat.json''
     = Inr [\<lparr>msg_text = JStr [], timestamp = 1800000000000000, sender = JStr ''Ann''\<rparr>]
   \<and> imessage_parse sample_world ''chat.csv''
     = Inr [\<lparr>msg_text = JStr ''hi'', timestamp = 1704103200000000, sender = JStr ''Ann''\<rparr>]"
proof -
  have 1: "imessage_json_entry w i (JObj [(''message'', m), (''date'', d), (''from'', f)])
     = Inr (Some \<lparr>msg_text = JStr [], timestamp = now w i, sender = f\<rparr>)"
    by (simp add: imessage_json_entry_def bind_def imessage_parse_timestamp_def
        try_formats_not_string)
  have 2: "imessage_csv_row w i [(''message'', m), (''date'', d), (''from'', f)]
     = Inr (Some \<lparr>msg_text = m, timestamp = imessage_parse_timestamp w i d, sender = f\<rparr>)"
    by (simp add: imessage_csv_row_def bind_def)
  have 3: "imessage_parse sample_world ''chat.json''
     = Inr [\<lparr>msg_text = JStr [], timestamp = 1800000000000000, sender = JStr ''Ann''\<rparr>]"
    by code_simp
  have 4: "imessage_parse sample_world ''chat.csv''
     = Inr [\<lparr>msg_text = JStr ''hi'', timestamp = 1704103200000000, sender = JStr ''Ann''\<rparr>]"
    by code_simp
  from 1 2 3 4 show ?thesis by blast
qed

subsection \<open>Entries that are skipped or defaulted\<close>

lemma collect_index:
  assumes "\<And>i j x. f i x = f j x"
  shows "collect f i xs = collect f j xs"
proof (induction xs arbitrary: i j)
  case Nil
  show ?case by simp
next
  case (Cons x xs)
  have "f i x = f j x" by (rule assms)
  moreover have "collect f (Suc i) xs = collect f (Suc j) xs" by (rule Cons.IH)
  ultimately show ?case by simp
qed

lemma collect_skip:
  assumes ix: "\<And>i j x. f i x = f j x" and skip: "\<And>k. f k e = Inr None"
  shows "collect f i (xs @ e # ys) = collect f j (xs @ ys)"
proof (induction xs arbitrary: i j)
  case Nil
  have "collect f i (e # ys) = collect f (Suc i) ys"
    by (cases "collect f (Suc i) ys") (simp_all add: skip bind_def)
  also have "\<dots> = collect f j ys" by (rule collect_index[OF ix])
  finally show ?case by simp
next
  case (Cons x xs)
  have "f i x = f j x" by (rule ix)
  moreover have "collect f (Suc i) (xs @ e # ys) = collect f (Suc j) (xs @ ys)"
    by (rule Cons.IH)
  ultimately show ?case by simp
qed

lemma collect_total:
  assumes "\<And>i x. \<exists>r. f i x = Inr r"
  shows "\<exists>rs. collect f i xs = Inr rs"
proof (induction xs arbitrary: i)
  case Nil
  show ?case by simp
next
  case (Cons x xs)
  obtain r where r: "f i x = Inr r" using assms by blast
  obtain rs where rs: "collect f (Suc i) xs = Inr rs" using Cons.IH by blast
  show ?case by (simp add: r rs bind_def)
qed

lemma whatsapp_line_total: "\<exists>r. whatsapp_line w i line = Inr r"
  by (auto simp add: whatsapp_line_def Let_def split: option.splits)

lemma whatsapp_line_index: "whatsapp_line w i line = whatsapp_line w j line"
  by (simp add: whatsapp_line_def)

lemma whatsapp_line_no_match: "re_match w line = None \<Longrightarrow> whatsapp_line w k line = Inr None"
  by (simp add: whatsapp_line_def)

lemma facebook_entry_index: "facebook_entry w i e = facebook_entry w j e"
  by (simp add: facebook_entry_def)

lemma facebook_entry_no_content:
  "''content'' \<notin> fst ` set kvs \<Longrightarrow> facebook_entry w k (JObj kvs) = Inr None"
  by (simp add: facebook_entry_def bind_def)

lemma facebook_parse_entries:
  assumes "json_load w file_path = Inr (JObj kvs)" and "map_of kvs ''messages'' = Some (JArr es)"
  shows "facebook_parse w file_path = collect (facebook_entry w) 0 es"
proof -
  have "''messages'' \<in> fst ` set kvs"
    using assms(2) by (metis domI dom_map_of_conv_image_fst)
  then show ?thesis using assms by (simp add: facebook_parse_def bind_def)
qed

lemma whatsapp_parse_lines:
  assumes "files w file_path = Some txt"
  shows "whatsapp_parse w file_path = collect (whatsapp_line w) 0 (py_lines [] txt)"
  using assms by (simp add: whatsapp_parse_def open_file_def bind_def)

lemma map_of_absent: "key \<notin> fst ` set kvs \<Longrightarrow> map_of kvs key = None"
  by (simp add: map_of_eq_None_iff)

lemma imessage_json_unknown:
  assumes "''sender'' \<notin> fst ` set kvs" "''from'' \<notin> fst ` set kvs"
  shows "\<exists>m. imessage_json_entry w i (JObj kvs) = Inr (Some m) \<and> sender m = JStr ''Unknown''"
  using map_of_absent[OF assms(1)] map_of_absent[OF assms(2)]
  by (simp add: imessage_json_entry_def bind_def split: option.splits)

lemma imessage_csv_unknown:
  assumes "''sender'' \<notin> fst ` set kvs" "''from'' \<notin> fst ` set kvs"
  shows "\<exists>m. imessage_csv_row w i kvs = Inr (Some m) \<and> sender m = JStr ''Unknown''"
  using map_of_absent[OF assms(1)] map_of_absent[OF assms(2)]
  by (simp add: imessage_csv_row_def bind_def split: option.splits)

lemma generic_unknown:
  assumes "''sender'' \<notin> fst ` set kvs" "''from'' \<notin> fst ` set kvs"
    "''author'' \<notin> fst ` set kvs"
  shows "case generic_entry w i (JObj kvs) of
           Inr r \<Rightarrow> \<exists>m. r = Some m \<and> sender m = JStr ''Unknown''
         | Inl e \<Rightarrow> \<exists>x. fromtimestamp w x = Inl e"
proof -
  define ts where "ts = (case map_of kvs ''timestamp'' of Some v \<Rightarrow> v
    | None \<Rightarrow> (case map_of kvs ''date'' of Some v \<Rightarrow> v
      | None \<Rightarrow> (case map_of kvs ''time'' of Some v \<Rightarrow> v | None \<Rightarrow> JNull)))"
  have g: "generic_entry w i (JObj kvs) =
    (case generic_parse_timestamp w i ts of
       Inl e \<Rightarrow> Inl e
     | Inr t \<Rightarrow> Inr (Some \<lparr>msg_text =
          (case map_of kvs ''text'' of Some v \<Rightarrow> v
           | None \<Rightarrow> (case map_of kvs ''message'' of Some v \<Rightarrow> v
             | None \<Rightarrow> (case map_of kvs ''content'' of Some v \<Rightarrow> v | None \<Rightarrow> JStr []))),
          timestamp = t, sender = JStr ''Unknown''\<rparr>))"
    using map_of_absent[OF assms(1)] map_of_absent[OF assms(2)] map_of_absent[OF assms(3)]
    by (simp add: generic_entry_def bind_def ts_def split: option.splits sum.splits)
  show ?thesis
  proof (cases "generic_parse_timestamp w i ts")
    case (Inl e)
    then have "\<exists>x. fromtimestamp w x = Inl e"
      by (auto simp add: generic_parse_timestamp_def split: option.splits)
    with Inl show ?thesis by (simp add: g)
  next
    case (Inr t)
    then show ?thesis by (simp add: g)
  qed
qed

text \<open>
  C5, as the code has it. A WhatsApp file that opens always parses, and a line the pattern
  does not match changes nothing in the result of the loop over the lines. A Facebook entry
  without \<^verbatim>\<open>content\<close> changes nothing in the result of the loop over the entries, be it
  messages or the error of another entry. An entry of the iMessage or generic parser without
  any sender key gets the sender \<^verbatim>\<open>Unknown\<close>; the generic parser then fails only if the
  timestamp is a number that \<^verbatim>\<open>fromtimestamp\<close> rejects. The two loops are the parsers by
  \<open>whatsapp_parse_lines\<close> and \<open>facebook_parse_entries\<close>.
\<close>

theorem entry_anomalies:
  "(files w file_path \<noteq> None \<longrightarrow> (\<exists>ms. whatsapp_parse w file_path = Inr ms))
   \<and> (re_match w line = None \<longrightarrow>
        collect (whatsapp_line w) i (ls1 @ line # ls2) = collect (whatsapp_line w) j (ls1 @ ls2))
   \<and> (''content'' \<notin> fst ` set kvs \<longrightarrow>
        collect (facebook_entry w) i (es1 @ JObj kvs # es2)
          = collect (facebook_entry w) j (es1 @ es2))
   \<and> (''sender'' \<notin> fst ` set kvs \<and> ''from'' \<notin> fst ` set kvs \<longrightarrow>
        (\<exists>m. imessage_json_entry w i (JObj kvs) = Inr (Some m) \<and> sender m = JStr ''Unknown'')
        \<and> (\<exists>m. imessage_csv_row w i kvs = Inr (Some m) \<and> sender m = JStr ''Unknown''))
   \<and> (''sender'' \<notin> fst ` set kvs \<and> ''from'' \<notin> fst ` set kvs \<and> ''author'' \<notin> fst ` set kvs \<longrightarrow>
        (case generic_entry w i (JObj kvs) of
           Inr r \<Rightarrow> \<exists>m. r = Some m \<and> sender m = JStr ''Unknown''
         | Inl e \<Rightarrow> \<exists>x. fromtimestamp w x = Inl e))"
proof -
  have 1: "files w file_path \<noteq> None \<longrightarrow> (\<exists>ms. whatsapp_parse w file_path = Inr ms)"
    using collect_total[of "whatsapp_line w", OF whatsapp_line_total]
    by (auto simp add: whatsapp_parse_def open_file_def bind_def)
  have 2: "re_match w line = None \<longrightarrow>
        collect (whatsapp_line w) i (ls1 @ line # ls2) = collect (whatsapp_line w) j (ls1 @ ls2)"
    using collect_skip[of "whatsapp_line w" line i ls1 ls2 j, OF whatsapp_line_index]
      whatsapp_line_no_match[of w line]
    by blast
  have 3: "''content'' \<notin> fst ` set kvs \<longrightarrow>
        collect (facebook_entry w) i (es1 @ JObj kvs # es2)
          = collect (facebook_entry w) j (es1 @ es2)"
    using collect_skip[of "facebook_entry w" "JObj kvs" i es1 es2 j, OF facebook_entry_index]
      facebook_entry_no_content[of kvs w]
    by blast
  from 1 2 3 show ?thesis
    using imessage_json_unknown[of kvs w i] imessage_csv_unknown[of kvs w i]
      generic_unknown[of kvs w i]
    by blast
qed

lemma sample_anomalies:
  "files sample_world ''chat.txt'' \<noteq> None"
  "re_match sample_world sample_continuation = None"
  "''content'' \<notin> fst ` set sample_photo"
  "''sender'' \<notin> fst ` set sample_photo" "''from'' \<notin> fst ` set sample_photo"
  "''author'' \<notin> fst ` set sample_photo"
  by code_simp+

theorem entry_anomalies_witness:
  "files sample_world ''chat.txt'' \<noteq> None
   \<and> (\<exists>ms. whatsapp_parse sample_world ''chat.txt'' = Inr ms)
   \<and> re_match sample_world sample_continuation = None
   \<and> collect (whatsapp_line sample_world) 0 ([sample_line] @ sample_continuation # [])
       = collect (whatsapp_line sample_world) 0 ([sample_line] @ [])
   \<and> ''content'' \<notin> fst ` set sample_photo
   \<and> collect (facebook_entry sample_world) 0 ([] @ JObj sample_photo # [JObj sample_text])
       = collect (facebook_entry sample_world) 0 ([] @ [JObj sample_text])
   \<and> ''sender'' \<notin> fst ` set sample_photo \<and> ''from'' \<notin> fst ` set sample_photo
   \<and> ''author'' \<notin> fst ` set sample_photo
   \<and> (\<exists>m. imessage_json_entry sample_world 0 (JObj sample_photo) = Inr (Some m)
          \<and> sender m = JStr ''Unknown'')
   \<and> (\<exists>m. imessage_csv_row sample_world 0 sample_photo = Inr (Some m)
          \<and> sender m = JStr ''Unknown'')
   \<and> (case generic_entry sample_world 0 (JObj sample_photo) of
         Inr r \<Rightarrow> \<exists>m. r = Some m \<and> sender m = JStr ''Unknown''
       | Inl e \<Rightarrow> \<exists>x. fromtimestamp sample_world x = Inl e)"
  using entry_anomalies[where w = sample_world and file_path = "''chat.txt''"
      and line = sample_continuation and i = 0 and j = 0 and ?ls1.0 = "[sample_line]"
      and ?ls2.0 = "[]" and kvs = sample_photo and ?es1.0 = "[]"
      and ?es2.0 = "[JObj sample_text]"]
    sample_anomalies
  by blast

text \<open>
  The claim as stated fails for other incomplete entries. The file \<^verbatim>\<open>fb.json\<close> is a JSON object
  with a \<^verbatim>\<open>messages\<close> array; its entry has \<^verbatim>\<open>content\<close> and \<^verbatim>\<open>timestamp_ms\<close> but no
  \<^verbatim>\<open>sender_name\<close>, and the Facebook parser raises \<^verbatim>\<open>KeyError\<close> to its caller.
\<close>

theorem facebook_missing_sender_counterexample:
  "json_load sample_world ''fb.json'' = Inr sample_broken_export
   \<and> facebook_parse sample_world ''fb.json'' = Inl KeyError"
  by code_simp

end
